theory Spec2Isabelle
  imports Complex_Main
begin

section \<open>Data model\<close>

text \<open>
  The scraping router of \<^verbatim>\<open>scripts/smart_scraping_workflow.py\<close> and the batch pipeline of
  \<^verbatim>\<open>scripts/parallel_company_research.py\<close>, as pure functions. Everything the Python code
  obtains from outside (the headless crawler, the Firecrawl service, \<^verbatim>\<open>json.loads\<close>,
  \<^verbatim>\<open>random.choice\<close>, the process environment) is a field of one record, \<open>world\<close>; the
  mutable instance \<^verbatim>\<open>self\<close> is passed in and returned.

  Monetary amounts are Python floats in the source and exact rationals here: the model does
  not round, and it has no infinity and no nan. The statements about amounts are therefore
  kept to what does not depend on rounding: that a value is the result of the expression the
  code computes it with (the same operations on the same operands in the same order), and
  that an amount is at least 0 or a total at least what it was. No statement reorders or
  regroups a sum.

  A \<open>char\<close> stands for a code point below 256.
\<close>

text \<open>A call into a library either raises (the text is \<^verbatim>\<open>str(e)\<close>) or returns.\<close>

datatype 'a outcome = Raised string | Returned 'a

text \<open>Python values as \<^verbatim>\<open>json.loads\<close> produces them; \<open>JNull\<close> is \<^verbatim>\<open>None\<close>.\<close>

datatype json =
    JNull
  | JBool bool
  | JNum rat
  | JStr string
  | JArr "json list"
  | JObj "(string \<times> json) list"

text \<open>Python truthiness of such a value, and of an optional string.\<close>

fun truthy :: "json \<Rightarrow> bool" where
  "truthy JNull = False"
| "truthy (JBool b) = b"
| "truthy (JNum n) = (n \<noteq> 0)"
| "truthy (JStr s) = (s \<noteq> [])"
| "truthy (JArr xs) = (xs \<noteq> [])"
| "truthy (JObj kvs) = (kvs \<noteq> [])"

fun truthy_str :: "string option \<Rightarrow> bool" where
  "truthy_str None = False"
| "truthy_str (Some s) = (s \<noteq> [])"

text \<open>An entry of \<^verbatim>\<open>self.proxy_pool\<close>.\<close>

record proxy =
  proxy_url :: string
  proxy_username :: "string option"
  proxy_password :: "string option"

text \<open>The \<^verbatim>\<open>LLMExtractionStrategy\<close> handed to the crawler (its provider is always 'openai').\<close>

record llm_strategy =
  api_token :: string
  strategy_model :: string
  instruction :: string

text \<open>
  What \<^verbatim>\<open>crawler.arun\<close> returns. \<open>images = None\<close> stands for a result object without
  the attribute \<^verbatim>\<open>images\<close>.
\<close>

record crawl_result =
  crawl_success :: bool
  markdown :: "string option"
  extracted_content :: "string option"
  links :: json
  images :: "json option"

text \<open>The keyword arguments of \<^verbatim>\<open>self.firecrawl.scrape_url\<close>; \<open>extract_prompt\<close> is the
  prompt of the key \<^verbatim>\<open>'extract'\<close>, \<open>None\<close> when the key is not set.\<close>

record firecrawl_params =
  formats :: "string list"
  onlyMainContent :: bool
  extract_prompt :: "string option"

text \<open>
  The environment variables read while scraping. \<open>OPENAI_NANO_COST_PER_M\<close> is the variable as
  \<^verbatim>\<open>float()\<close> reads its text: \<open>None\<close> when it is unset, \<open>Some (Returned p)\<close> when
  \<^verbatim>\<open>float()\<close> returns the finite number \<open>p\<close>, \<open>Some (Raised msg)\<close> when \<^verbatim>\<open>float()\<close>
  rejects the text with a ValueError. A text that \<^verbatim>\<open>float()\<close> reads as an infinity or as
  nan (\<^verbatim>\<open>inf\<close>, \<^verbatim>\<open>1e400\<close>, \<^verbatim>\<open>nan\<close>) has no counterpart in the model; with such a
  price the code records an infinite cost or nan.
\<close>

record environ =
  DEEPSEEK_API_KEY :: "string option"
  DEEPSEEK_MODEL :: "string option"
  GROK_API_KEY :: "string option"
  GROK_MODEL :: "string option"
  OPENAI_API_KEY :: "string option"
  OPENAI_MODEL :: "string option"
  OPENAI_NANO_COST_PER_M :: "rat outcome option"

text \<open>
  The outside world. \<open>crawler_arun proxy url strategy\<close> is the whole
  \<^verbatim>\<open>async with AsyncWebCrawler(**browser_config) as crawler: await crawler.arun(...)\<close> step for
  a browser configured with \<open>proxy\<close>; an exception while the browser starts is a \<open>Raised\<close>
  outcome of the first call.
\<close>

record world =
  crawler_arun :: "proxy option \<Rightarrow> string \<Rightarrow> llm_strategy option \<Rightarrow> crawl_result outcome"
  firecrawl_scrape_url :: "string \<Rightarrow> firecrawl_params \<Rightarrow> json outcome"
  json_loads :: "string \<Rightarrow> json outcome"
  random_choice :: "proxy list \<Rightarrow> proxy"
  getenv :: environ

text \<open>\<^verbatim>\<open>self.costs\<close>: the cost ledger (lines 46-50).\<close>

record costs =
  crawl4ai :: rat
  firecrawl :: rat
  total_pages :: int

definition initial_costs :: costs where
  "initial_costs = \<lparr>crawl4ai = 0, firecrawl = 0, total_pages = 0\<rparr>"

text \<open>The instance \<^verbatim>\<open>self\<close> of \<^verbatim>\<open>SmartScrapingWorkflow\<close>.\<close>

record workflow =
  llm_provider :: string
  use_proxy :: bool
  costs :: costs
  proxy_pool :: "proxy list"

text \<open>The \<^verbatim>\<open>'data'\<close> entry of a successful result: the dict built by the Crawl4AI adapter, or
  whatever Firecrawl returned.\<close>

record crawl4ai_data =
  data_markdown :: "string option"
  data_extracted :: json
  data_links :: json
  data_images :: json

datatype payload = Crawl4ai_data crawl4ai_data | Firecrawl_data json

text \<open>
  The dict an adapter or the router returns; a key that is not in the dict is \<open>None\<close>. The key
  \<^verbatim>\<open>'url'\<close> is the field \<open>failed_url\<close>. For \<^verbatim>\<open>'proxy_used'\<close>, \<open>None\<close> is also the
  value \<^verbatim>\<open>None\<close> the adapter stores when no proxy is in use.
\<close>

record fetch_result =
  success :: bool
  source :: "string option"
  provider :: "string option"
  model :: "string option"
  cost :: "rat option"
  data :: "payload option"
  proxy_used :: "string option"
  error :: "string option"
  failed_url :: "string option"

section \<open>The scraping workflow\<close>

text \<open>\<^verbatim>\<open>os.getenv(name, default)\<close> for a variable read as \<open>v\<close>.\<close>

fun getenv_default :: "string option \<Rightarrow> string \<Rightarrow> string" where
  "getenv_default None d = d"
| "getenv_default (Some v) d = v"

text \<open>\<^verbatim>\<open>_get_proxy\<close> (lines 83-87).\<close>

definition get_proxy :: "world \<Rightarrow> workflow \<Rightarrow> proxy option" where
  "get_proxy w self =
     (if proxy_pool self = [] then None else Some (random_choice w (proxy_pool self)))"

text \<open>\<^verbatim>\<open>_get_llm_config\<close> (lines 89-108): provider, API key, model.\<close>

definition get_llm_config :: "world \<Rightarrow> workflow \<Rightarrow> string \<times> string option \<times> string" where
  "get_llm_config w self =
     (if llm_provider self = ''deepseek'' then
        (''deepseek'', DEEPSEEK_API_KEY (getenv w),
         getenv_default (DEEPSEEK_MODEL (getenv w)) ''deepseek-chat'')
      else if llm_provider self = ''grok'' then
        (''grok'', GROK_API_KEY (getenv w),
         getenv_default (GROK_MODEL (getenv w)) ''grok-3-mini'')
      else
        (''openai'', OPENAI_API_KEY (getenv w),
         getenv_default (OPENAI_MODEL (getenv w)) ''gpt-5-nano''))"

text \<open>The dict \<^verbatim>\<open>{'success': False, 'error': str(e)}\<close> of both adapters' handlers.\<close>

definition adapter_failure :: "string \<Rightarrow> fetch_result" where
  "adapter_failure e =
     \<lparr>success = False, source = None, provider = None, model = None, cost = None,
      data = None, proxy_used = None, error = Some e, failed_url = None\<rparr>"

text \<open>
  The instruction used when the caller gives none (lines 177-187); the line breaks and the
  indentation of the Python literal are written as single spaces.
\<close>

definition default_instruction :: string where
  "default_instruction =
     ''Extract concise business intelligence: '' @
     ''- company_description (1-2 sentences) '' @
     ''- products_services (bullet list) '' @
     ''- leadership (C-suite names and titles if present) '' @
     ''- technology_mentions (keywords like Procore, P6, Autodesk, Oracle, AI, cloud) '' @
     ''- recent_news (last 12 months) '' @
     ''Return valid JSON with these keys.''"

text \<open>
  The optional LLM extraction (lines 174-198), entered when the provider is 'openai' and an
  API key is set. Every exception in it is caught by the inner handler and leaves
  \<^verbatim>\<open>extracted_json\<close> at \<^verbatim>\<open>None\<close>.
\<close>

definition llm_extraction ::
  "world \<Rightarrow> proxy option \<Rightarrow> string \<Rightarrow> string option \<Rightarrow> string \<Rightarrow> string \<Rightarrow> json" where
  "llm_extraction w prox url extraction_instructions api_key mdl =
     (let instr = (if truthy_str extraction_instructions
                   then the extraction_instructions else default_instruction);
          llm_strategy = \<lparr>api_token = api_key, strategy_model = mdl, instruction = instr\<rparr>
      in case crawler_arun w prox url (Some llm_strategy) of
           Raised llm_err \<Rightarrow> JNull
         | Returned llm_result \<Rightarrow>
             (if crawl_success llm_result \<and> truthy_str (extracted_content llm_result) then
                (case json_loads w (the (extracted_content llm_result)) of
                   Raised llm_err \<Rightarrow> JNull
                 | Returned j \<Rightarrow> j)
              else JNull))"

text \<open>\<^verbatim>\<open>estimated_tokens\<close> (line 201).\<close>

definition estimated_tokens :: "crawl_result \<Rightarrow> rat" where
  "estimated_tokens result =
     (if truthy_str (markdown result) then of_nat (length (the (markdown result))) / 4 else 0)"

text \<open>
  The cost of a rendered page (lines 202-209). In the last branch \<^verbatim>\<open>float()\<close> may raise.
\<close>

definition page_cost :: "world \<Rightarrow> string \<Rightarrow> crawl_result \<Rightarrow> rat outcome" where
  "page_cost w prov result =
     (if prov = ''deepseek'' then Returned ((estimated_tokens result / 1000000) * (14 / 100))
      else if prov = ''grok'' then Returned ((estimated_tokens result / 1000000) * (10 / 100))
      else
        (case (case OPENAI_NANO_COST_PER_M (getenv w) of
                 None \<Rightarrow> Returned (5 / 10)
               | Some v \<Rightarrow> v) of
           Raised e \<Rightarrow> Raised e
         | Returned openai_nano_cost_per_m \<Rightarrow>
             Returned ((estimated_tokens result / 1000000) * openai_nano_cost_per_m)))"

text \<open>The value of the key \<^verbatim>\<open>'extracted'\<close> (line 222); \<^verbatim>\<open>json.loads\<close> may raise here.\<close>

definition extracted_entry :: "world \<Rightarrow> json \<Rightarrow> crawl_result \<Rightarrow> json outcome" where
  "extracted_entry w extracted_json result =
     (if truthy extracted_json then Returned extracted_json
      else if truthy_str (extracted_content result)
           then json_loads w (the (extracted_content result))
      else Returned JNull)"

text \<open>The value of the key \<^verbatim>\<open>'images'\<close> (line 224).\<close>

definition images_entry :: "crawl_result \<Rightarrow> json" where
  "images_entry result = (case images result of Some i \<Rightarrow> i | None \<Rightarrow> JArr [])"

text \<open>
  \<^verbatim>\<open>_try_crawl4ai\<close> (lines 146-231). The result is \<open>None\<close> where the Python function falls
  off its end and returns \<^verbatim>\<open>None\<close>: when the render reports \<^verbatim>\<open>success\<close> false. The outer
  handler (lines 229-231) turns every exception into a failure dict; the ledger keeps whatever
  was written to it before the exception.
\<close>

definition try_crawl4ai ::
  "world \<Rightarrow> workflow \<Rightarrow> string \<Rightarrow> string option \<Rightarrow> fetch_result option \<times> workflow" where
  "try_crawl4ai w self url extraction_instructions =
     (case get_llm_config w self of (prov, api_key, mdl) \<Rightarrow>
       (let prox = (if use_proxy self then get_proxy w self else None) in
        (case crawler_arun w prox url None of
           Raised e \<Rightarrow> (Some (adapter_failure e), self)
         | Returned result \<Rightarrow>
             if crawl_success result then
               (let extracted_json =
                      (if prov = ''openai'' \<and> truthy_str api_key
                       then llm_extraction w prox url extraction_instructions (the api_key) mdl
                       else JNull)
                in case page_cost w prov result of
                     Raised e \<Rightarrow> (Some (adapter_failure e), self)
                   | Returned c \<Rightarrow>
                       (let self' = self\<lparr>costs := (costs self)
                              \<lparr>crawl4ai := crawl4ai (costs self) + c,
                               total_pages := total_pages (costs self) + 1\<rparr>\<rparr>
                        in case extracted_entry w extracted_json result of
                             Raised e \<Rightarrow> (Some (adapter_failure e), self')
                           | Returned ex \<Rightarrow>
                               (Some \<lparr>success = True, source = Some ''crawl4ai'',
                                      provider = Some prov, model = Some mdl, cost = Some c,
                                      data = Some (Crawl4ai_data
                                        \<lparr>data_markdown = markdown result, data_extracted = ex,
                                         data_links = links result,
                                         data_images = images_entry result\<rparr>),
                                      proxy_used = map_option proxy_url prox,
                                      error = None, failed_url = None\<rparr>, self')))
             else (None, self))))"

text \<open>The parameters of the Firecrawl request (lines 237-245).\<close>

definition firecrawl_request :: "string option \<Rightarrow> firecrawl_params" where
  "firecrawl_request extraction_instructions =
     \<lparr>formats = [''markdown''], onlyMainContent = True,
      extract_prompt = (if truthy_str extraction_instructions
                        then extraction_instructions else None)\<rparr>"

text \<open>
  \<^verbatim>\<open>_try_firecrawl\<close> (lines 233-265). It returns \<^verbatim>\<open>None\<close> when the service returns a
  falsy value without raising.
\<close>

definition try_firecrawl ::
  "world \<Rightarrow> workflow \<Rightarrow> string \<Rightarrow> string option \<Rightarrow> fetch_result option \<times> workflow" where
  "try_firecrawl w self url extraction_instructions =
     (let params = firecrawl_request extraction_instructions
      in case firecrawl_scrape_url w url params of
           Raised e \<Rightarrow> (Some (adapter_failure e), self)
         | Returned result \<Rightarrow>
             if truthy result then
               (let c = 1 / 100;
                    self' = self\<lparr>costs := (costs self)
                          \<lparr>firecrawl := firecrawl (costs self) + c,
                           total_pages := total_pages (costs self) + 1\<rparr>\<rparr>
                in (Some \<lparr>success = True, source = Some ''firecrawl'', provider = None,
                          model = None, cost = Some c, data = Some (Firecrawl_data result),
                          proxy_used = None, error = None, failed_url = None\<rparr>, self'))
             else (None, self))"

text \<open>
  The test \<^verbatim>\<open>r and r.get('success')\<close> of the router: \<^verbatim>\<open>None\<close> is falsy, a result dict is
  never empty.
\<close>

fun succeeded :: "fetch_result option \<Rightarrow> bool" where
  "succeeded None = False"
| "succeeded (Some r) = success r"

text \<open>The dict returned when both scrapers failed (lines 140-144).\<close>

definition both_failed :: "string \<Rightarrow> fetch_result" where
  "both_failed url =
     \<lparr>success = False, source = None, provider = None, model = None, cost = None,
      data = None, proxy_used = None,
      error = Some ''Both Crawl4AI and Firecrawl failed'', failed_url = Some url\<rparr>"

text \<open>\<^verbatim>\<open>scrape_url\<close> (lines 110-144).\<close>

definition scrape_url ::
  "world \<Rightarrow> workflow \<Rightarrow> string \<Rightarrow> string option \<Rightarrow> fetch_result \<times> workflow" where
  "scrape_url w self url extraction_instructions =
     (case try_crawl4ai w self url extraction_instructions of
        (crawl4ai_result, self1) \<Rightarrow>
          if succeeded crawl4ai_result then (the crawl4ai_result, self1)
          else
            (case try_firecrawl w self1 url extraction_instructions of
               (firecrawl_result, self2) \<Rightarrow>
                 if succeeded firecrawl_result then (the firecrawl_result, self2)
                 else (both_failed url, self2)))"







section \<open>The company research pipeline\<close>

text \<open>
  A company as \<^verbatim>\<open>load_companies\<close> builds it from a CSV row. Routing reads three of its
  twenty keys; the others only reach the reports and are kept as a list. A cell the CSV
  reader left at \<^verbatim>\<open>None\<close> is \<open>None\<close>.
\<close>

record company =
  company_name :: string
  website :: "string option"
  linkedin_url :: "string option"
  other_fields :: "(string \<times> string) list"

text \<open>
  The whitespace \<^verbatim>\<open>str.strip()\<close> removes, among the code points below 256: tab to
  carriage return, the four separators 28 to 31, the space, next line (133) and the
  no-break space (160).
\<close>

definition is_space :: "char \<Rightarrow> bool" where
  "is_space c =
     (let n = of_char c :: nat
      in (9 \<le> n \<and> n \<le> 13) \<or> (28 \<le> n \<and> n \<le> 32) \<or> n = 133 \<or> n = 160)"

definition strip :: "string \<Rightarrow> string" where
  "strip s = rev (dropWhile is_space (rev (dropWhile is_space s)))"

definition startswith :: "string \<Rightarrow> string \<Rightarrow> bool" where
  "startswith s p = (take (length p) s = p)"

definition rstrip_slash :: "string \<Rightarrow> string" where
  "rstrip_slash s = rev (dropWhile (\<lambda>c. c = CHR ''/'') (rev s))"

text \<open>\<^verbatim>\<open>clean_url\<close> (lines 84-93).\<close>

definition clean_url :: "string option \<Rightarrow> string" where
  "clean_url url =
     (if \<not> truthy_str url then []
      else
        (let u = strip (the url);
             u' = (if \<not> (startswith u ''http://'' \<or> startswith u ''https://'')
                   then ''https://'' @ u else u)
         in rstrip_slash u'))"

text \<open>
  The extraction prompt of a company (lines 106-117); line breaks and indentation are written
  as single spaces.
\<close>

definition extraction_prompt :: "string \<Rightarrow> string" where
  "extraction_prompt name =
     ''Extract comprehensive information about '' @ name @ '': '' @
     ''1. Company overview and mission '' @
     ''2. Products and services offered '' @
     ''3. Technology stack and tools used (especially Procore, ACC, Primavera P6) '' @
     ''4. Recent projects and achievements '' @
     ''5. Leadership team and key executives '' @
     ''6. News and announcements from the last 12 months '' @
     ''7. Digital transformation initiatives '' @
     ''8. Pain points or challenges mentioned '' @
     ''9. Contact information''"

text \<open>
  The values stored in \<^verbatim>\<open>results['scraping_results']\<close>: a result dict under the keys
  \<^verbatim>\<open>'main_site'\<close> and \<^verbatim>\<open>'linkedin'\<close>, the extracted fields under \<^verbatim>\<open>'extracted_data'\<close>.
  The dict is the list of its items in insertion order; every key is inserted at most once.
\<close>

datatype scraping_entry = Fetch fetch_result | Extracted json

record company_result =
  company :: company
  scraping_results :: "(string \<times> scraping_entry) list"
  scraping_cost :: rat

text \<open>\<^verbatim>\<open>result.get('cost', 0)\<close>.\<close>

fun get_cost :: "fetch_result \<Rightarrow> rat" where
  "get_cost r = (case cost r of Some c \<Rightarrow> c | None \<Rightarrow> 0)"

text \<open>
  \<^verbatim>\<open>main_result.get('data', {}).get('extracted')\<close> (line 129). A Firecrawl payload that is not
  a dict has no \<^verbatim>\<open>get\<close>: the AttributeError is the \<open>Raised\<close> outcome.
\<close>

fun get_extracted :: "fetch_result \<Rightarrow> json outcome" where
  "get_extracted r =
     (case data r of
        None \<Rightarrow> Returned JNull
      | Some (Crawl4ai_data d) \<Rightarrow> Returned (data_extracted d)
      | Some (Firecrawl_data (JObj kvs)) \<Rightarrow>
          Returned (case map_of kvs ''extracted'' of Some j \<Rightarrow> j | None \<Rightarrow> JNull)
      | Some (Firecrawl_data other) \<Rightarrow> Raised ''object has no attribute get'')"

text \<open>
  The primary-website step of \<^verbatim>\<open>scrape_company_data\<close> (lines 119-134). A failed result is
  not stored. The handler of line 133 only logs, so an exception after the result and its cost
  were stored leaves both in place.
\<close>

definition scrape_main_site ::
  "world \<Rightarrow> workflow \<Rightarrow> company_result \<Rightarrow> company_result \<times> workflow" where
  "scrape_main_site w scraper results =
     (let site = clean_url (website (company results)) in
      if site \<noteq> [] then
        (case scrape_url w scraper site
                (Some (extraction_prompt (company_name (company results)))) of
           (main_result, scraper') \<Rightarrow>
             if success main_result then
               (let results1 = results
                      \<lparr>scraping_results :=
                         scraping_results results @ [(''main_site'', Fetch main_result)],
                       scraping_cost := scraping_cost results + get_cost main_result\<rparr>
                in case get_extracted main_result of
                     Raised e \<Rightarrow> (results1, scraper')
                   | Returned extracted \<Rightarrow>
                       if truthy extracted then
                         (results1\<lparr>scraping_results :=
                            scraping_results results1 @
                              [(''extracted_data'', Extracted extracted)]\<rparr>, scraper')
                       else (results1, scraper'))
             else (results, scraper'))
      else (results, scraper))"

text \<open>The LinkedIn step (lines 136-148).\<close>

definition scrape_linkedin ::
  "world \<Rightarrow> workflow \<Rightarrow> company_result \<Rightarrow> company_result \<times> workflow" where
  "scrape_linkedin w scraper results =
     (let linkedin = linkedin_url (company results) in
      if truthy_str linkedin \<and> startswith (the linkedin) ''http'' then
        (case scrape_url w scraper (the linkedin)
                (Some ''Extract company size, recent posts, and employee count'') of
           (linkedin_result, scraper') \<Rightarrow>
             if success linkedin_result then
               (results
                  \<lparr>scraping_results :=
                     scraping_results results @ [(''linkedin'', Fetch linkedin_result)],
                   scraping_cost := scraping_cost results + get_cost linkedin_result\<rparr>,
                scraper')
             else (results, scraper'))
      else (results, scraper))"

text \<open>\<^verbatim>\<open>scrape_company_data\<close> (lines 95-150); \<open>scraper\<close> is \<^verbatim>\<open>self.scraper\<close>.\<close>

definition scrape_company_data ::
  "world \<Rightarrow> workflow \<Rightarrow> company \<Rightarrow> company_result \<times> workflow" where
  "scrape_company_data w scraper co =
     (let results = \<lparr>company = co, scraping_results = [], scraping_cost = 0\<rparr>
      in case scrape_main_site w scraper results of
           (results1, scraper1) \<Rightarrow> scrape_linkedin w scraper1 results1)"

text \<open>
  \<^verbatim>\<open>process_company_batch\<close> (lines 241-256). \<^verbatim>\<open>asyncio.gather\<close> returns the results in the
  order of its arguments; the model runs the coroutines one after the other, which is one of
  the schedules of the event loop.
\<close>

fun process_company_batch ::
  "world \<Rightarrow> workflow \<Rightarrow> company list \<Rightarrow> company_result list \<times> workflow" where
  "process_company_batch w scraper [] = ([], scraper)"
| "process_company_batch w scraper (co # companies) =
     (case scrape_company_data w scraper co of
        (scraped_data, scraper1) \<Rightarrow>
          (case process_company_batch w scraper1 companies of
             (results, scraper2) \<Rightarrow> (scraped_data # results, scraper2)))"

text \<open>
  A row of the master CSV (lines 272-301). Of its 21 columns the model keeps those that
  identify the company and carry its cost, the cost as a number; the other columns are
  renderings of the same result (truncated texts, formatted amounts, the date).
\<close>

record master_row =
  row_company_name :: string
  row_website :: "string option"
  row_linkedin_url :: "string option"
  row_web_scraping_cost :: rat

definition master_row_of :: "company_result \<Rightarrow> master_row" where
  "master_row_of result =
     \<lparr>row_company_name = company_name (company result),
      row_website = website (company result),
      row_linkedin_url = linkedin_url (company result),
      row_web_scraping_cost = scraping_cost result\<rparr>"

text \<open>
  \<^verbatim>\<open>generate_master_csv\<close> (lines 261-313): \<open>files\<close> are the CSV files written so far, each
  the list of its rows. A file is written only when there is at least one row.
\<close>

definition generate_master_csv :: "company_result list \<Rightarrow> master_row list list \<Rightarrow> master_row list list" where
  "generate_master_csv all_results files =
     (let rows = map master_row_of all_results
      in if rows \<noteq> [] then files @ [rows] else files)"

text \<open>
  The state of the loop of \<^verbatim>\<open>run_research_pipeline\<close>: the cumulative results, the CSV files
  written, the scraper, and \<open>batches\<close>, the values the loop variable \<^verbatim>\<open>batch\<close> has taken (the
  code logs the length of each).
\<close>

record pipeline_run =
  all_results :: "company_result list"
  csv_files :: "master_row list list"
  batches :: "company list list"
  scraper_of :: workflow

text \<open>
  The body of \<^verbatim>\<open>for i in range(0, len(companies), batch_size)\<close> (lines 327-353) for a
  positive step, from index \<open>i\<close> on.
\<close>

function batch_loop :: "world \<Rightarrow> company list \<Rightarrow> int \<Rightarrow> nat \<Rightarrow> pipeline_run \<Rightarrow> pipeline_run" where
  "batch_loop w companies batch_size i run =
     (if 0 < batch_size \<and> i < length companies then
        (let batch = take (nat batch_size) (drop i companies) in
         case process_company_batch w (scraper_of run) batch of
           (batch_results, scraper') \<Rightarrow>
             (let completed_results = batch_results;
                  all_results' = all_results run @ completed_results
              in batch_loop w companies batch_size (i + nat batch_size)
                   \<lparr>all_results = all_results',
                    csv_files = generate_master_csv all_results' (csv_files run),
                    batches = batches run @ [batch],
                    scraper_of = scraper'\<rparr>))
      else run)"
  by pat_completeness auto
termination
  by (relation "measure (\<lambda>(w, companies, batch_size, i, run). length companies - i)") auto

declare batch_loop.simps [simp del]

text \<open>The slice \<^verbatim>\<open>companies[:limit]\<close>; a negative bound counts from the end.\<close>

definition slice_to :: "'a list \<Rightarrow> int \<Rightarrow> 'a list" where
  "slice_to xs limit =
     (if 0 \<le> limit then take (nat limit) xs else take (length xs - nat (- limit)) xs)"

datatype py_error = ValueError string

text \<open>
  \<^verbatim>\<open>run_research_pipeline\<close> (lines 315-356), from the list \<^verbatim>\<open>load_companies\<close> returned.
  \<^verbatim>\<open>if limit:\<close> is false for \<^verbatim>\<open>None\<close> and for 0. \<^verbatim>\<open>range\<close> raises ValueError for a
  step of 0 and is empty for a negative step.
\<close>

definition run_research_pipeline ::
  "world \<Rightarrow> workflow \<Rightarrow> company list \<Rightarrow> int option \<Rightarrow> int \<Rightarrow> py_error + pipeline_run" where
  "run_research_pipeline w scraper loaded limit batch_size =
     (let companies = (case limit of
                         None \<Rightarrow> loaded
                       | Some l \<Rightarrow> if l \<noteq> 0 then slice_to loaded l else loaded)
      in if batch_size = 0 then Inl (ValueError ''range() arg 3 must not be zero'')
         else Inr (batch_loop w companies batch_size 0
                     \<lparr>all_results = [], csv_files = [], batches = [], scraper_of = scraper\<rparr>))"

section \<open>The cost formula in the words of the specification\<close>



section \<open>Conditions on a run\<close>

text \<open>
  A Primary attempt that does not succeed although it has written to the ledger: the exception
  came after lines 211-212.
\<close>

definition fails_after_recording :: "world \<Rightarrow> workflow \<Rightarrow> string \<Rightarrow> string option \<Rightarrow> bool" where
  "fails_after_recording w self url extraction_instructions =
     (case try_crawl4ai w self url extraction_instructions of
        (r, self') \<Rightarrow> \<not> succeeded r \<and> costs self' \<noteq> costs self)"








text \<open>
  The invariant of the batch loop: one CSV file per batch; the results are those of the
  companies of the batches, in order; the file written after batch \<open>k\<close> holds the rows of the
  results up to and including that batch; no batch is empty or longer than the batch size.
\<close>

definition checkpointed :: "int \<Rightarrow> pipeline_run \<Rightarrow> bool" where
  "checkpointed batch_size run =
     (length (csv_files run) = length (batches run) \<and>
      map company (all_results run) = concat (batches run) \<and>
      (\<forall>k<length (batches run).
         csv_files run ! k =
           map master_row_of
             (take (length (concat (take (Suc k) (batches run)))) (all_results run))) \<and>
      (\<forall>b\<in>set (batches run). b \<noteq> [] \<and> length b \<le> nat batch_size))"

section \<open>Concrete inputs\<close>

text \<open>An environment with none of the variables set.\<close>

definition env_unset :: environ where
  "env_unset =
     \<lparr>DEEPSEEK_API_KEY = None, DEEPSEEK_MODEL = None, GROK_API_KEY = None,
      GROK_MODEL = None, OPENAI_API_KEY = None, OPENAI_MODEL = None,
      OPENAI_NANO_COST_PER_M = None\<rparr>"

text \<open>
  \<^verbatim>\<open>json.loads\<close> on the texts of the examples below: two JSON documents, and the message
  Python gives for a text such as \<^verbatim>\<open>not json\<close>.
\<close>

definition json_loads_stub :: "string \<Rightarrow> json outcome" where
  "json_loads_stub s =
     (if s = ''{}'' then Returned (JObj [])
      else if s = ''[1]'' then Returned (JArr [JNum 1])
      else Raised ''Expecting value: line 1 column 1 (char 0)'')"

text \<open>A world made of a crawler stub and a Firecrawl stub that look at the URL only.\<close>

definition stub_world ::
  "(string \<Rightarrow> llm_strategy option \<Rightarrow> crawl_result outcome) \<Rightarrow> (string \<Rightarrow> json outcome)
     \<Rightarrow> environ \<Rightarrow> world" where
  "stub_world crawl fc env =
     \<lparr>crawler_arun = (\<lambda>prox. crawl), firecrawl_scrape_url = (\<lambda>url params. fc url),
      json_loads = json_loads_stub, random_choice = hd, getenv = env\<rparr>"

text \<open>A fresh workflow with the default provider and no proxy, and one for the 'openai' branch.\<close>

definition scraper0 :: workflow where
  "scraper0 =
     \<lparr>llm_provider = ''deepseek'', use_proxy = False, costs = initial_costs, proxy_pool = []\<rparr>"

definition scraper_openai :: workflow where
  "scraper_openai =
     \<lparr>llm_provider = ''openai'', use_proxy = False, costs = initial_costs, proxy_pool = []\<rparr>"

text \<open>A page that rendered, with its markdown and its \<^verbatim>\<open>extracted_content\<close>.\<close>

definition page :: "string \<Rightarrow> string option \<Rightarrow> crawl_result" where
  "page md ec =
     \<lparr>crawl_success = True, markdown = Some md, extracted_content = ec,
      links = JObj [], images = Some (JArr [])\<rparr>"

definition firecrawl_doc :: json where
  "firecrawl_doc = JObj [(''markdown'', JStr ''abcd'')]"

text \<open>
  The page renders and carries an \<^verbatim>\<open>extracted_content\<close> that is not JSON; Firecrawl
  answers, or is down.
\<close>

definition world_bad_content :: world where
  "world_bad_content =
     stub_world (\<lambda>url strategy. Returned (page ''abcd'' (Some ''not json'')))
       (\<lambda>url. Returned firecrawl_doc) env_unset"

definition world_bad_content_no_firecrawl :: world where
  "world_bad_content_no_firecrawl =
     stub_world (\<lambda>url strategy. Returned (page ''abcd'' (Some ''not json'')))
       (\<lambda>url. Raised ''503 Service Unavailable'') env_unset"

definition world_bad_content_openai :: world where
  "world_bad_content_openai =
     stub_world (\<lambda>url strategy. Returned (page ''abcd'' (Some ''not json'')))
       (\<lambda>url. Returned firecrawl_doc) (env_unset\<lparr>OPENAI_API_KEY := Some ''sk-test''\<rparr>)"

text \<open>The page renders without \<^verbatim>\<open>extracted_content\<close>.\<close>

definition world_plain :: world where
  "world_plain =
     stub_world (\<lambda>url strategy. Returned (page ''abcd'' None))
       (\<lambda>url. Returned firecrawl_doc) env_unset"

text \<open>The render reports failure without raising, and Firecrawl returns an empty dict.\<close>

definition world_silent :: world where
  "world_silent =
     stub_world (\<lambda>url strategy. Returned ((page [] None)\<lparr>crawl_success := False\<rparr>))
       (\<lambda>url. Returned (JObj [])) env_unset"



text \<open>A company whose website is unreachable on both backends; its LinkedIn page is served by
  Firecrawl only.\<close>

definition acme :: company where
  "acme =
     \<lparr>company_name = ''Acme'', website = Some ''acme.invalid'',
      linkedin_url = Some ''https://www.linkedin.com/company/acme'', other_fields = []\<rparr>"

definition world_only_linkedin :: world where
  "world_only_linkedin =
     stub_world (\<lambda>url strategy. Raised ''net::ERR_NAME_NOT_RESOLVED'')
       (\<lambda>url. if url = ''https://www.linkedin.com/company/acme'' then Returned firecrawl_doc
              else Raised ''503 Service Unavailable'')
       env_unset"


text \<open>Companies without a website and without a LinkedIn page: nothing is fetched for them.\<close>

definition bare_company :: "string \<Rightarrow> company" where
  "bare_company name =
     \<lparr>company_name = name, website = None, linkedin_url = None, other_fields = []\<rparr>"

definition twelve_companies :: "company list" where
  "twelve_companies =
     map bare_company
       [''c01'', ''c02'', ''c03'', ''c04'', ''c05'', ''c06'',
        ''c07'', ''c08'', ''c09'', ''c10'', ''c11'', ''c12'']"

section \<open>Evaluation\<close>

text \<open>The equations that evaluate the model and the concrete inputs.\<close>

lemmas fixture_defs =
  env_unset_def json_loads_stub_def stub_world_def scraper0_def page_def
  firecrawl_doc_def initial_costs_def

lemmas model_defs =
  scrape_url_def try_firecrawl_def firecrawl_request_def try_crawl4ai_def get_llm_config_def
  get_proxy_def llm_extraction_def page_cost_def estimated_tokens_def extracted_entry_def
  images_entry_def adapter_failure_def both_failed_def Let_def

lemmas pipeline_defs =
  scrape_company_data_def scrape_main_site_def scrape_linkedin_def clean_url_def strip_def
  startswith_def rstrip_slash_def is_space_def extraction_prompt_def

section \<open>The adapters\<close>






lemma try_firecrawl_success:
  assumes "try_firecrawl w self url extraction_instructions = (Some r, self')"
    and "success r"
  shows "cost r = Some (1 / 100) \<and> source r = Some ''firecrawl'' \<and> error r = None \<and>
         self' = self\<lparr>costs := (costs self)
                   \<lparr>firecrawl := firecrawl (costs self) + 1 / 100,
                    total_pages := total_pages (costs self) + 1\<rparr>\<rparr>"
  using assms
  by (auto simp: try_firecrawl_def adapter_failure_def Let_def
      split: outcome.splits if_splits)

lemma try_firecrawl_not_succeeded:
  assumes "try_firecrawl w self url extraction_instructions = (r, self')"
    and "\<not> succeeded r"
  shows "self' = self"
  using assms
  by (auto simp: try_firecrawl_def adapter_failure_def Let_def
      split: outcome.splits if_splits)

text \<open>
  C8. For every successful Secondary (firecrawl) fetch, the recorded cost is the fixed value
  0.01, whatever the URL, the extraction instructions and the fetched content are; the ledger's
  firecrawl total grows by that amount and the page counter by 1.
\<close>

theorem firecrawl_fixed_cost:
  assumes "try_firecrawl w self url extraction_instructions = (Some r, self')"
    and "success r"
  shows "cost r = Some (1 / 100) \<and>
         firecrawl (costs self') = firecrawl (costs self) + 1 / 100 \<and>
         crawl4ai (costs self') = crawl4ai (costs self) \<and>
         total_pages (costs self') = total_pages (costs self) + 1"
  using try_firecrawl_success [OF assms] by simp

theorem firecrawl_fixed_cost_witness:
  "try_firecrawl world_plain scraper0 ''https://example.com'' (Some ''Extract the team'') =
     (Some \<lparr>success = True, source = Some ''firecrawl'', provider = None, model = None,
            cost = Some (1 / 100), data = Some (Firecrawl_data firecrawl_doc),
            proxy_used = None, error = None, failed_url = None\<rparr>,
      scraper0\<lparr>costs := \<lparr>crawl4ai = 0, firecrawl = 1 / 100, total_pages = 1\<rparr>\<rparr>)
   \<and> firecrawl (costs scraper0) = 0"
  using firecrawl_fixed_cost [of world_plain scraper0 "''https://example.com''"
      "Some ''Extract the team''"]
  by (simp add: model_defs fixture_defs world_plain_def)

section \<open>The router\<close>

text \<open>The router after a Primary attempt that did not succeed.\<close>

lemma scrape_url_fallback:
  assumes "try_crawl4ai w self url extraction_instructions = (r1, self1)"
    and "\<not> succeeded r1"
  shows "scrape_url w self url extraction_instructions =
           (case try_firecrawl w self1 url extraction_instructions of
              (r2, self2) \<Rightarrow>
                if succeeded r2 then (the r2, self2) else (both_failed url, self2))"
  using assms by (simp add: scrape_url_def)

lemma scrape_url_primary:
  assumes "try_crawl4ai w self url extraction_instructions = (Some r1, self1)"
    and "success r1"
  shows "scrape_url w self url extraction_instructions = (r1, self1)"
  using assms by (simp add: scrape_url_def)

text \<open>
  C10. The adapters do not always return a result dict. When the Primary render completes
  without an exception but reports \<^verbatim>\<open>success\<close> false, and when the Secondary service
  returns a falsy value without raising, the adapter returns \<^verbatim>\<open>None\<close> and leaves the
  ledger as it was. The router treats \<^verbatim>\<open>None\<close> like a failure dict: after the Primary it
  goes on to the Secondary, after the Secondary it returns the total-failure result.
\<close>

theorem adapters_return_None:
  "(crawler_arun w (if use_proxy self then get_proxy w self else None) url None = Returned result
      \<and> \<not> crawl_success result
      \<longrightarrow> try_crawl4ai w self url extraction_instructions = (None, self))
   \<and> (firecrawl_scrape_url w url (firecrawl_request extraction_instructions) = Returned doc
      \<and> \<not> truthy doc
      \<longrightarrow> try_firecrawl w self url extraction_instructions = (None, self))
   \<and> (try_crawl4ai w self url extraction_instructions = (r1, self1)
      \<and> (r1 = None \<or> r1 = Some (adapter_failure e))
      \<longrightarrow> scrape_url w self url extraction_instructions =
            (case try_firecrawl w self1 url extraction_instructions of
               (r2, self2) \<Rightarrow>
                 if succeeded r2 then (the r2, self2) else (both_failed url, self2)))
   \<and> (try_crawl4ai w self url extraction_instructions = (r1, self1) \<and> \<not> succeeded r1
      \<and> try_firecrawl w self1 url extraction_instructions = (r2, self2)
      \<and> (r2 = None \<or> r2 = Some (adapter_failure e))
      \<longrightarrow> scrape_url w self url extraction_instructions = (both_failed url, self1))"
proof (intro conjI impI)
  assume "crawler_arun w (if use_proxy self then get_proxy w self else None) url None
            = Returned result \<and> \<not> crawl_success result"
  then show "try_crawl4ai w self url extraction_instructions = (None, self)"
    by (cases "get_llm_config w self") (simp add: try_crawl4ai_def)
next
  assume "firecrawl_scrape_url w url (firecrawl_request extraction_instructions) = Returned doc
            \<and> \<not> truthy doc"
  then show "try_firecrawl w self url extraction_instructions = (None, self)"
    by (simp add: try_firecrawl_def)
next
  assume "try_crawl4ai w self url extraction_instructions = (r1, self1)
            \<and> (r1 = None \<or> r1 = Some (adapter_failure e))"
  then have "try_crawl4ai w self url extraction_instructions = (r1, self1)" "\<not> succeeded r1"
    by (auto simp: adapter_failure_def)
  then show "scrape_url w self url extraction_instructions =
            (case try_firecrawl w self1 url extraction_instructions of
               (r2, self2) \<Rightarrow>
                 if succeeded r2 then (the r2, self2) else (both_failed url, self2))"
    by (rule scrape_url_fallback)
next
  assume a: "try_crawl4ai w self url extraction_instructions = (r1, self1) \<and> \<not> succeeded r1
      \<and> try_firecrawl w self1 url extraction_instructions = (r2, self2)
      \<and> (r2 = None \<or> r2 = Some (adapter_failure e))"
  then have n2: "\<not> succeeded r2" by (auto simp: adapter_failure_def)
  with a have "self2 = self1" using try_firecrawl_not_succeeded by blast
  with a n2 show "scrape_url w self url extraction_instructions = (both_failed url, self1)"
    by (simp add: scrape_url_fallback)
qed

theorem adapters_return_None_witness:
  "crawler_arun world_silent (if use_proxy scraper0 then get_proxy world_silent scraper0 else None)
      ''https://example.com'' None = Returned ((page [] None)\<lparr>crawl_success := False\<rparr>)
   \<and> \<not> crawl_success ((page [] None)\<lparr>crawl_success := False\<rparr>)
   \<and> firecrawl_scrape_url world_silent ''https://example.com'' (firecrawl_request None)
        = Returned (JObj [])
   \<and> \<not> truthy (JObj [])
   \<and> try_crawl4ai world_silent scraper0 ''https://example.com'' None = (None, scraper0)
   \<and> try_firecrawl world_silent scraper0 ''https://example.com'' None = (None, scraper0)
   \<and> scrape_url world_silent scraper0 ''https://example.com'' None
        = (both_failed ''https://example.com'', scraper0)"
  using adapters_return_None [of world_silent scraper0 "''https://example.com''"
      "(page [] None)\<lparr>crawl_success := False\<rparr>" None "JObj []" None scraper0 "[]" None scraper0]
  by (simp add: model_defs fixture_defs world_silent_def)

section \<open>A failure after the cost was recorded\<close>

text \<open>
  The Primary adapter writes the cost to the ledger (lines 211-212) before it builds the result
  dict, and \<^verbatim>\<open>json.loads(result.extracted_content)\<close> in that dict (line 222) is outside the
  inner handler that guards the same call at line 196. When the rendered page carries an
  \<^verbatim>\<open>extracted_content\<close> that is not JSON, the outer handler returns a failure dict and the
  ledger keeps the cost of the page.
\<close>

text \<open>
  C1. The claim: for every URL, if the Primary fetch fails and the Secondary fetch succeeds with
  cost c, then \<^verbatim>\<open>scrape_url\<close> returns a result with success true and source firecrawl, the
  ledger's firecrawl total grows by exactly c and the crawl4ai total is unchanged. On the input
  below the Primary fetch fails, the Secondary succeeds with cost 0.01 and the result is the
  Secondary's, but the crawl4ai total has grown from 0 to 0.00000014 and two pages are counted
  for one URL.
\<close>

theorem fallback_after_late_failure:
  "try_crawl4ai world_bad_content scraper0 ''https://example.com'' None =
     (Some (adapter_failure ''Expecting value: line 1 column 1 (char 0)''),
      scraper0\<lparr>costs := \<lparr>crawl4ai = 7 / 50000000, firecrawl = 0, total_pages = 1\<rparr>\<rparr>)
   \<and> scrape_url world_bad_content scraper0 ''https://example.com'' None =
     (\<lparr>success = True, source = Some ''firecrawl'', provider = None, model = None,
       cost = Some (1 / 100), data = Some (Firecrawl_data firecrawl_doc),
       proxy_used = None, error = None, failed_url = None\<rparr>,
      scraper0\<lparr>costs := \<lparr>crawl4ai = 7 / 50000000, firecrawl = 1 / 100, total_pages = 2\<rparr>\<rparr>)
   \<and> crawl4ai (costs scraper0) = 0"
  by (simp add: model_defs fixture_defs world_bad_content_def)

text \<open>
  C2. The claim: for every URL, if both adapters fail, \<^verbatim>\<open>scrape_url\<close> returns a result with
  success false and the aggregate error message, and no cost is recorded: every total and the
  page counter are unchanged. On the input below both adapters fail and the total-failure
  result is returned, but the crawl4ai total and the page counter have grown.
\<close>

theorem total_failure_after_late_failure:
  "try_crawl4ai world_bad_content_no_firecrawl scraper0 ''https://example.com'' None =
     (Some (adapter_failure ''Expecting value: line 1 column 1 (char 0)''),
      scraper0\<lparr>costs := \<lparr>crawl4ai = 7 / 50000000, firecrawl = 0, total_pages = 1\<rparr>\<rparr>)
   \<and> try_firecrawl world_bad_content_no_firecrawl
        (scraper0\<lparr>costs := \<lparr>crawl4ai = 7 / 50000000, firecrawl = 0, total_pages = 1\<rparr>\<rparr>)
        ''https://example.com'' None =
     (Some (adapter_failure ''503 Service Unavailable''),
      scraper0\<lparr>costs := \<lparr>crawl4ai = 7 / 50000000, firecrawl = 0, total_pages = 1\<rparr>\<rparr>)
   \<and> scrape_url world_bad_content_no_firecrawl scraper0 ''https://example.com'' None =
     (both_failed ''https://example.com'',
      scraper0\<lparr>costs := \<lparr>crawl4ai = 7 / 50000000, firecrawl = 0, total_pages = 1\<rparr>\<rparr>)
   \<and> costs scraper0 = \<lparr>crawl4ai = 0, firecrawl = 0, total_pages = 0\<rparr>"
  by (simp add: model_defs fixture_defs world_bad_content_no_firecrawl_def)

text \<open>
  C3. The claim: whenever the page renders but the structured-extraction content does not parse
  as JSON, the Primary fetch still returns success true with the raw content and no extracted
  fields; a parse failure never fails the fetch. On the input below the provider is 'openai'
  with an API key, the page renders, and neither the content of the LLM pass nor the content
  of the render parses: the first failure is caught (line 197), the second one (line 222)
  makes the fetch a failure, after its cost was recorded.
\<close>

theorem unparsable_content_fails_fetch:
  "crawler_arun world_bad_content_openai None ''https://example.com'' None =
     Returned (page ''abcd'' (Some ''not json''))
   \<and> crawl_success (page ''abcd'' (Some ''not json''))
   \<and> json_loads world_bad_content_openai ''not json'' =
        Raised ''Expecting value: line 1 column 1 (char 0)''
   \<and> try_crawl4ai world_bad_content_openai scraper_openai ''https://example.com'' None =
     (Some \<lparr>success = False, source = None, provider = None, model = None, cost = None,
            data = None, proxy_used = None,
            error = Some ''Expecting value: line 1 column 1 (char 0)'', failed_url = None\<rparr>,
      scraper_openai\<lparr>costs := \<lparr>crawl4ai = 1 / 2000000, firecrawl = 0, total_pages = 1\<rparr>\<rparr>)"
  by (simp add: model_defs fixture_defs world_bad_content_openai_def scraper_openai_def)

section \<open>One company\<close>

text \<open>
  C4. The claim: for a task whose primary URL fails on both backends and whose linkedin URL
  succeeds, the company result contains a failed "main site" entry and a successful "linkedin"
  entry, and its cost is the cost of the linkedin fetch. The code stores a result only under
  \<^verbatim>\<open>if main_result['success']\<close> (line 124): on the input below the failed result of the
  main site is not in \<^verbatim>\<open>scraping_results\<close> at all.
\<close>

theorem failed_main_site_is_not_stored:
  "clean_url (website acme) = ''https://acme.invalid''
   \<and> scrape_url world_only_linkedin scraper0 ''https://acme.invalid''
        (Some (extraction_prompt ''Acme'')) = (both_failed ''https://acme.invalid'', scraper0)
   \<and> scrape_company_data world_only_linkedin scraper0 acme =
       (\<lparr>company = acme,
         scraping_results =
           [(''linkedin'', Fetch
              \<lparr>success = True, source = Some ''firecrawl'', provider = None, model = None,
               cost = Some (1 / 100), data = Some (Firecrawl_data firecrawl_doc),
               proxy_used = None, error = None, failed_url = None\<rparr>)],
         scraping_cost = 1 / 100\<rparr>,
        scraper0\<lparr>costs := \<lparr>crawl4ai = 0, firecrawl = 1 / 100, total_pages = 1\<rparr>\<rparr>)
   \<and> map_of (scraping_results (fst (scrape_company_data world_only_linkedin scraper0 acme)))
        ''main_site'' = None"
  by (simp add: pipeline_defs model_defs fixture_defs world_only_linkedin_def acme_def)

text \<open>
  C4, as the code has it: for a company whose cleaned website URL is not empty and fails in the
  router, and whose linkedin URL starts with \<^verbatim>\<open>http\<close> and succeeds, the company result has
  no \<^verbatim>\<open>main_site\<close> entry, the successful result under \<^verbatim>\<open>linkedin\<close>, and the cost of
  that result as its \<^verbatim>\<open>scraping_cost\<close>.
\<close>

theorem partial_failure_result:
  assumes "clean_url (website co) \<noteq> []"
    and "scrape_url w scraper (clean_url (website co))
           (Some (extraction_prompt (company_name co))) = (r1, scraper1)"
    and "\<not> success r1"
    and "truthy_str (linkedin_url co)"
    and "startswith (the (linkedin_url co)) ''http''"
    and "scrape_url w scraper1 (the (linkedin_url co))
           (Some ''Extract company size, recent posts, and employee count'') = (r2, scraper2)"
    and "success r2"
  shows "scrape_company_data w scraper co =
           (\<lparr>company = co, scraping_results = [(''linkedin'', Fetch r2)],
             scraping_cost = get_cost r2\<rparr>, scraper2)
         \<and> map_of (scraping_results (fst (scrape_company_data w scraper co))) ''main_site'' = None
         \<and> map_of (scraping_results (fst (scrape_company_data w scraper co))) ''linkedin''
             = Some (Fetch r2)
         \<and> scraping_cost (fst (scrape_company_data w scraper co)) = get_cost r2"
proof -
  have "scrape_main_site w scraper \<lparr>company = co, scraping_results = [], scraping_cost = 0\<rparr>
          = (\<lparr>company = co, scraping_results = [], scraping_cost = 0\<rparr>, scraper1)"
    using assms(1-3) by (simp add: scrape_main_site_def Let_def)
  moreover have "scrape_linkedin w scraper1 \<lparr>company = co, scraping_results = [], scraping_cost = 0\<rparr>
          = (\<lparr>company = co, scraping_results = [(''linkedin'', Fetch r2)],
              scraping_cost = get_cost r2\<rparr>, scraper2)"
    using assms(4-7) by (simp add: scrape_linkedin_def Let_def)
  ultimately show ?thesis
    by (simp add: scrape_company_data_def)
qed

theorem partial_failure_result_witness:
  "clean_url (website acme) \<noteq> []
   \<and> scrape_url world_only_linkedin scraper0 (clean_url (website acme))
        (Some (extraction_prompt (company_name acme)))
       = (both_failed ''https://acme.invalid'', scraper0)
   \<and> \<not> success (both_failed ''https://acme.invalid'')
   \<and> truthy_str (linkedin_url acme)
   \<and> startswith (the (linkedin_url acme)) ''http''
   \<and> scrape_url world_only_linkedin scraper0 (the (linkedin_url acme))
        (Some ''Extract company size, recent posts, and employee count'')
       = (\<lparr>success = True, source = Some ''firecrawl'', provider = None, model = None,
           cost = Some (1 / 100), data = Some (Firecrawl_data firecrawl_doc),
           proxy_used = None, error = None, failed_url = None\<rparr>,
          scraper0\<lparr>costs := \<lparr>crawl4ai = 0, firecrawl = 1 / 100, total_pages = 1\<rparr>\<rparr>)
   \<and> map_of (scraping_results (fst (scrape_company_data world_only_linkedin scraper0 acme)))
        ''main_site'' = None
   \<and> map_of (scraping_results (fst (scrape_company_data world_only_linkedin scraper0 acme)))
        ''linkedin''
       = Some (Fetch \<lparr>success = True, source = Some ''firecrawl'', provider = None, model = None,
           cost = Some (1 / 100), data = Some (Firecrawl_data firecrawl_doc),
           proxy_used = None, error = None, failed_url = None\<rparr>)
   \<and> scraping_cost (fst (scrape_company_data world_only_linkedin scraper0 acme)) = 1 / 100"
proof -
  have h1: "clean_url (website acme) \<noteq> []"
    by (simp add: pipeline_defs acme_def)
  have h2: "scrape_url world_only_linkedin scraper0 (clean_url (website acme))
        (Some (extraction_prompt (company_name acme)))
       = (both_failed ''https://acme.invalid'', scraper0)"
    by (simp add: pipeline_defs model_defs fixture_defs world_only_linkedin_def acme_def)
  have h3: "\<not> success (both_failed ''https://acme.invalid'')"
    by (simp add: both_failed_def)
  have h4: "truthy_str (linkedin_url acme)" by (simp add: acme_def)
  have h5: "startswith (the (linkedin_url acme)) ''http''"
    by (simp add: acme_def startswith_def)
  have h6: "scrape_url world_only_linkedin scraper0 (the (linkedin_url acme))
        (Some ''Extract company size, recent posts, and employee count'')
       = (\<lparr>success = True, source = Some ''firecrawl'', provider = None, model = None,
           cost = Some (1 / 100), data = Some (Firecrawl_data firecrawl_doc),
           proxy_used = None, error = None, failed_url = None\<rparr>,
          scraper0\<lparr>costs := \<lparr>crawl4ai = 0, firecrawl = 1 / 100, total_pages = 1\<rparr>\<rparr>)"
    by (simp add: model_defs fixture_defs world_only_linkedin_def acme_def)
  show ?thesis
    using partial_failure_result [OF h1 h2 h3 h4 h5 h6] h1 h2 h3 h4 h5 h6 by simp
qed

section \<open>The cost ledger\<close>



text \<open>What a Primary attempt does to the instance: nothing, or one record.\<close>

lemma try_crawl4ai_ledger:
  assumes "try_crawl4ai w self url extraction_instructions = (r, self')"
  shows "self' = self \<or>
         (\<exists>result c. page_cost w (fst (get_llm_config w self)) result = Returned c \<and>
            self' = self\<lparr>costs := (costs self)
                      \<lparr>crawl4ai := crawl4ai (costs self) + c,
                       total_pages := total_pages (costs self) + 1\<rparr>\<rparr>)"
proof -
  obtain prov api_key mdl where cfg: "get_llm_config w self = (prov, api_key, mdl)"
    by (cases "get_llm_config w self") auto
  let ?prox = "if use_proxy self then get_proxy w self else None"
  let ?ej = "if prov = ''openai'' \<and> truthy_str api_key
             then llm_extraction w ?prox url extraction_instructions (the api_key) mdl
             else JNull"
  show ?thesis
  proof (cases "crawler_arun w ?prox url None")
    case (Raised e)
    with assms cfg show ?thesis
      by (auto simp: try_crawl4ai_def)
  next
    case arun: (Returned result)
    show ?thesis
    proof (cases "crawl_success result")
      case False
      with assms cfg arun show ?thesis
        by (auto simp: try_crawl4ai_def)
    next
      case True
      show ?thesis
      proof (cases "page_cost w prov result")
        case (Raised e)
        with assms cfg arun True show ?thesis
          by (auto simp: try_crawl4ai_def Let_def)
      next
        case c: (Returned c)
        with assms cfg arun True
        have "self' = self\<lparr>costs := (costs self)
                      \<lparr>crawl4ai := crawl4ai (costs self) + c,
                       total_pages := total_pages (costs self) + 1\<rparr>\<rparr>"
          by (cases "extracted_entry w ?ej result") (auto simp: try_crawl4ai_def Let_def)
        with c cfg show ?thesis by auto
      qed
    qed
  qed
qed





text \<open>
  Without a failure after recording, a failed Primary attempt leaves the ledger alone: the
  fallback then changes the firecrawl total only, and a total failure changes nothing.
\<close>

lemma failed_primary_keeps_ledger:
  assumes p: "try_crawl4ai w self url extraction_instructions = (r1, self1)"
    and "\<not> succeeded r1"
    and ok: "\<not> fails_after_recording w self url extraction_instructions"
  shows "self1 = self"
proof -
  from assms have c1: "costs self1 = costs self"
    by (simp add: fails_after_recording_def)
  show ?thesis
    using try_crawl4ai_ledger [OF p]
  proof (elim disjE exE conjE)
    fix result c
    assume "self1 = self\<lparr>costs := (costs self)
                    \<lparr>crawl4ai := crawl4ai (costs self) + c,
                     total_pages := total_pages (costs self) + 1\<rparr>\<rparr>"
    then have "total_pages (costs self1) = total_pages (costs self) + 1" by simp
    with c1 show ?thesis by simp
  qed
qed

lemma fallback_without_late_failure:
  assumes p: "try_crawl4ai w self url extraction_instructions = (r1, self1)"
    and n1: "\<not> succeeded r1"
    and ok: "\<not> fails_after_recording w self url extraction_instructions"
    and f: "try_firecrawl w self1 url extraction_instructions = (Some r2, self2)"
    and s2: "success r2"
  shows "scrape_url w self url extraction_instructions = (r2, self2) \<and>
         source r2 = Some ''firecrawl'' \<and> cost r2 = Some (1 / 100) \<and>
         firecrawl (costs self2) = firecrawl (costs self) + 1 / 100 \<and>
         crawl4ai (costs self2) = crawl4ai (costs self) \<and>
         total_pages (costs self2) = total_pages (costs self) + 1"
proof -
  from p n1 ok have "self1 = self" by (rule failed_primary_keeps_ledger)
  with try_firecrawl_success [OF f s2] p n1 f s2 show ?thesis
    by (simp add: scrape_url_fallback)
qed

lemma total_failure_without_late_failure:
  assumes p: "try_crawl4ai w self url extraction_instructions = (r1, self1)"
    and n1: "\<not> succeeded r1"
    and ok: "\<not> fails_after_recording w self url extraction_instructions"
    and f: "try_firecrawl w self1 url extraction_instructions = (r2, self2)"
    and n2: "\<not> succeeded r2"
  shows "scrape_url w self url extraction_instructions = (both_failed url, self)"
proof -
  from p n1 ok have "self1 = self" by (rule failed_primary_keeps_ledger)
  moreover from f n2 have "self2 = self1" by (rule try_firecrawl_not_succeeded)
  ultimately show ?thesis using p n1 f n2
    by (simp add: scrape_url_fallback)
qed

section \<open>The batch loop\<close>

lemma company_scrape_main_site:
  "company (fst (scrape_main_site w scraper results)) = company results"
  by (simp add: scrape_main_site_def Let_def split: prod.splits outcome.splits)

lemma company_scrape_linkedin:
  "company (fst (scrape_linkedin w scraper results)) = company results"
  by (simp add: scrape_linkedin_def Let_def split: prod.splits)

lemma company_scrape_company_data:
  "company (fst (scrape_company_data w scraper co)) = co"
proof -
  obtain r1 s1 where m: "scrape_main_site w scraper
      \<lparr>company = co, scraping_results = [], scraping_cost = 0\<rparr> = (r1, s1)"
    by (cases "scrape_main_site w scraper
      \<lparr>company = co, scraping_results = [], scraping_cost = 0\<rparr>") auto
  from company_scrape_main_site [of w scraper
      "\<lparr>company = co, scraping_results = [], scraping_cost = 0\<rparr>"] m
  have "company r1 = co" by simp
  with m company_scrape_linkedin [of w s1 r1] show ?thesis
    by (simp add: scrape_company_data_def)
qed

lemma map_company_process_company_batch:
  "map company (fst (process_company_batch w scraper companies)) = companies"
proof (induction companies arbitrary: scraper)
  case Nil
  show ?case by simp
next
  case (Cons co companies)
  obtain r s1 where a: "scrape_company_data w scraper co = (r, s1)"
    by (cases "scrape_company_data w scraper co") auto
  obtain rs s2 where b: "process_company_batch w s1 companies = (rs, s2)"
    by (cases "process_company_batch w s1 companies") auto
  from company_scrape_company_data [of w scraper co] a have "company r = co" by simp
  moreover from Cons.IH [of s1] b have "map company rs = companies" by simp
  ultimately show ?case using a b by simp
qed

lemma length_process_company_batch:
  "length (fst (process_company_batch w scraper companies)) = length companies"
  using map_company_process_company_batch [of w scraper companies]
  by (metis length_map)

text \<open>One iteration of the loop, and its exit.\<close>

lemma batch_loop_step:
  assumes "0 < batch_size" and "i < length companies"
  shows "batch_loop w companies batch_size i run =
           batch_loop w companies batch_size (i + nat batch_size)
             \<lparr>all_results = all_results run @
                 fst (process_company_batch w (scraper_of run)
                        (take (nat batch_size) (drop i companies))),
              csv_files = csv_files run @
                 [map master_row_of (all_results run @
                    fst (process_company_batch w (scraper_of run)
                           (take (nat batch_size) (drop i companies))))],
              batches = batches run @ [take (nat batch_size) (drop i companies)],
              scraper_of = snd (process_company_batch w (scraper_of run)
                                  (take (nat batch_size) (drop i companies)))\<rparr>"
proof -
  let ?batch = "take (nat batch_size) (drop i companies)"
  from assms have "?batch \<noteq> []" by simp
  then have "fst (process_company_batch w (scraper_of run) ?batch) \<noteq> []"
    using length_process_company_batch [of w "scraper_of run" ?batch] by auto
  with assms show ?thesis
    by (subst batch_loop.simps)
       (auto simp: Let_def generate_master_csv_def split: prod.splits)
qed

lemma batch_loop_exit:
  assumes "\<not> (0 < batch_size \<and> i < length companies)"
  shows "batch_loop w companies batch_size i run = run"
  by (subst batch_loop.simps) (use assms in auto)

lemma batch_loop_12_5:
  assumes "length companies = 12"
  shows "map length (batches (batch_loop w companies 5 0
            \<lparr>all_results = [], csv_files = [], batches = [], scraper_of = scraper\<rparr>)) = [5, 5, 2]
         \<and> length (csv_files (batch_loop w companies 5 0
            \<lparr>all_results = [], csv_files = [], batches = [], scraper_of = scraper\<rparr>)) = 3
         \<and> length (csv_files (batch_loop w companies 5 0
            \<lparr>all_results = [], csv_files = [], batches = [], scraper_of = scraper\<rparr>) ! 1) = 10"
  using assms
  by (simp add: batch_loop_step batch_loop_exit length_process_company_batch)


text \<open>The invariant of the loop is kept by one iteration.\<close>

lemma length_concat_take_le: "length (concat (take m xss)) \<le> length (concat xss)"
proof (induction xss arbitrary: m)
  case Nil
  show ?case by simp
next
  case (Cons xs xss)
  show ?case using Cons.IH by (cases m) (simp_all add: le_SucI)
qed

lemma checkpointed_step:
  assumes inv: "checkpointed batch_size run"
    and pos: "0 < batch_size" and more: "i < length companies"
    and res: "map company batch_results = take (nat batch_size) (drop i companies)"
  shows "checkpointed batch_size
           \<lparr>all_results = all_results run @ batch_results,
            csv_files = csv_files run @ [map master_row_of (all_results run @ batch_results)],
            batches = batches run @ [take (nat batch_size) (drop i companies)],
            scraper_of = scraper'\<rparr>"
proof -
  let ?batch = "take (nat batch_size) (drop i companies)"
  from inv have len: "length (csv_files run) = length (batches run)"
    and all: "map company (all_results run) = concat (batches run)"
    and files: "\<And>k. k < length (batches run) \<Longrightarrow>
         csv_files run ! k =
           map master_row_of
             (take (length (concat (take (Suc k) (batches run)))) (all_results run))"
    and sizes: "\<And>b. b \<in> set (batches run) \<Longrightarrow> b \<noteq> [] \<and> length b \<le> nat batch_size"
    by (simp_all add: checkpointed_def)
  from all have n_all: "length (all_results run) = length (concat (batches run))"
    by (metis length_map)
  from res have n_res: "length batch_results = length ?batch"
    by (metis length_map)
  have "\<And>k. k < Suc (length (batches run)) \<Longrightarrow>
         (csv_files run @ [map master_row_of (all_results run @ batch_results)]) ! k =
           map master_row_of
             (take (length (concat (take (Suc k) (batches run @ [?batch]))))
                (all_results run @ batch_results))"
  proof -
    fix k
    assume k: "k < Suc (length (batches run))"
    show "(csv_files run @ [map master_row_of (all_results run @ batch_results)]) ! k =
           map master_row_of
             (take (length (concat (take (Suc k) (batches run @ [?batch]))))
                (all_results run @ batch_results))"
    proof (cases "k < length (batches run)")
      case True
      have "length (concat (take (Suc k) (batches run))) \<le> length (all_results run)"
        using length_concat_take_le [of "Suc k" "batches run"] n_all by simp
      with True len files [OF True] show ?thesis
        by (simp add: nth_append)
    next
      case False
      with k have "k = length (batches run)" by simp
      with len n_all n_res show ?thesis
        by (simp add: nth_append)
    qed
  qed
  moreover from pos more have "?batch \<noteq> []" and "length ?batch \<le> nat batch_size"
    by simp_all
  ultimately show ?thesis
    using len all res sizes by (auto simp: checkpointed_def)
qed

lemma batch_loop_checkpointed:
  assumes pos: "0 < batch_size"
  shows "checkpointed batch_size run \<Longrightarrow> concat (batches run) = take i companies \<Longrightarrow>
         checkpointed batch_size (batch_loop w companies batch_size i run) \<and>
         concat (batches (batch_loop w companies batch_size i run)) = companies"
proof (induction "length companies - i" arbitrary: i run rule: less_induct)
  case less
  show ?case
  proof (cases "i < length companies")
    case True
    let ?batch = "take (nat batch_size) (drop i companies)"
    let ?p = "process_company_batch w (scraper_of run) ?batch"
    let ?run' = "\<lparr>all_results = all_results run @ fst ?p,
                  csv_files = csv_files run @ [map master_row_of (all_results run @ fst ?p)],
                  batches = batches run @ [?batch],
                  scraper_of = snd ?p\<rparr>"
    have step: "batch_loop w companies batch_size i run =
                  batch_loop w companies batch_size (i + nat batch_size) ?run'"
      using pos True by (rule batch_loop_step)
    have inv': "checkpointed batch_size ?run'"
      using less.prems(1) pos True map_company_process_company_batch
      by (rule checkpointed_step)
    have done': "concat (batches ?run') = take (i + nat batch_size) companies"
      using less.prems(2) by (simp add: take_add)
    from pos True have "length companies - (i + nat batch_size) < length companies - i"
      by simp
    from less.hyps [OF this inv' done'] step show ?thesis by simp
  next
    case False
    then have "batch_loop w companies batch_size i run = run"
      by (simp add: batch_loop_exit)
    with less.prems False show ?thesis by simp
  qed
qed

text \<open>
  C6. The claim: for every task list and batch size, the orchestrator, after truncating to the
  first \<open>limit\<close> tasks when a limit is given, partitions the list into contiguous batches of
  at most the batch size and writes one checkpoint after each batch; for 12 tasks and batch
  size 5 there are 3 checkpoints, the batches have 5, 5 and 2 tasks, and the second checkpoint
  holds 10 results. The batch size is the step of \<^verbatim>\<open>range\<close>: with 0 the call raises
  ValueError, with a negative step the range is empty and no task is processed. The limit is
  tested by \<^verbatim>\<open>if limit:\<close>, so a limit of 0 truncates nothing.
\<close>

theorem invalid_batch_size_and_zero_limit:
  "run_research_pipeline world_silent scraper0 [bare_company ''c01''] None 0 =
     Inl (ValueError ''range() arg 3 must not be zero'')
   \<and> run_research_pipeline world_silent scraper0 [bare_company ''c01''] None (- 1) =
     Inr \<lparr>all_results = [], csv_files = [], batches = [], scraper_of = scraper0\<rparr>
   \<and> run_research_pipeline world_silent scraper0 [bare_company ''c01''] (Some 0) 5 =
     Inr \<lparr>all_results =
            [\<lparr>company = bare_company ''c01'', scraping_results = [], scraping_cost = 0\<rparr>],
          csv_files =
            [[\<lparr>row_company_name = ''c01'', row_website = None, row_linkedin_url = None,
               row_web_scraping_cost = 0\<rparr>]],
          batches = [[bare_company ''c01'']], scraper_of = scraper0\<rparr>"
  by (simp add: run_research_pipeline_def batch_loop_step batch_loop_exit pipeline_defs
      generate_master_csv_def master_row_of_def bare_company_def)

text \<open>
  C6, as the code has it: for every task list, every batch size of at least 1 and every limit
  that is absent or not negative, the pipeline returns; the task list is the loaded one when
  the limit is absent or 0, its first \<open>limit\<close> entries otherwise; the batches are contiguous
  and in order (their concatenation is the task list), none is empty or longer than the batch
  size; one CSV file is written per batch, the one after batch \<open>k\<close> with the rows of all results
  up to that batch; the results are those of the tasks, in order. For 12 tasks and batch size 5
  the batches have 5, 5 and 2 tasks, 3 files are written and the second has 10 rows.
\<close>

theorem pipeline_batches_and_checkpoints:
  assumes "0 < batch_size"
    and "case limit of None \<Rightarrow> True | Some l \<Rightarrow> 0 \<le> l"
  shows "\<exists>run. run_research_pipeline w scraper loaded limit batch_size = Inr run \<and>
           concat (batches run) =
             (case limit of
                None \<Rightarrow> loaded
              | Some l \<Rightarrow> if l = 0 then loaded else take (nat l) loaded) \<and>
           (\<forall>b\<in>set (batches run). b \<noteq> [] \<and> length b \<le> nat batch_size) \<and>
           length (csv_files run) = length (batches run) \<and>
           (\<forall>k<length (batches run).
              csv_files run ! k =
                map master_row_of
                  (take (length (concat (take (Suc k) (batches run)))) (all_results run))) \<and>
           map company (all_results run) = concat (batches run) \<and>
           (length (concat (batches run)) = 12 \<and> batch_size = 5 \<longrightarrow>
              map length (batches run) = [5, 5, 2] \<and>
              length (csv_files run) = 3 \<and>
              length (csv_files run ! 1) = 10)"
proof -
  define companies where
    "companies = (case limit of
                    None \<Rightarrow> loaded
                  | Some l \<Rightarrow> if l \<noteq> 0 then slice_to loaded l else loaded)"
  define run0 where
    "run0 = \<lparr>all_results = [], csv_files = [], batches = [], scraper_of = scraper\<rparr>"
  define run where "run = batch_loop w companies batch_size 0 run0"
  from assms(1) have r: "run_research_pipeline w scraper loaded limit batch_size = Inr run"
    by (simp add: run_research_pipeline_def run_def run0_def companies_def)
  from assms(2) have c: "companies =
             (case limit of
                None \<Rightarrow> loaded
              | Some l \<Rightarrow> if l = 0 then loaded else take (nat l) loaded)"
    by (simp add: companies_def slice_to_def split: option.splits)
  have "checkpointed batch_size run0" and "concat (batches run0) = take 0 companies"
    by (simp_all add: checkpointed_def run0_def)
  with assms(1) have inv: "checkpointed batch_size run" and all: "concat (batches run) = companies"
    unfolding run_def by (simp_all add: batch_loop_checkpointed)
  have "map length (batches run) = [5, 5, 2] \<and> length (csv_files run) = 3 \<and>
        length (csv_files run ! 1) = 10"
    if "length (concat (batches run)) = 12" and "batch_size = 5"
    using that all batch_loop_12_5 [of companies w scraper]
    by (simp add: run_def run0_def)
  with r c all inv show ?thesis
    by (auto simp: checkpointed_def)
qed

theorem pipeline_batches_and_checkpoints_witness:
  "(0::int) < 5 \<and> (0::int) \<le> 12
   \<and> (\<exists>run. run_research_pipeline world_silent scraper0 twelve_companies (Some 12) 5 = Inr run \<and>
         concat (batches run) = twelve_companies \<and>
         map length (batches run) = [5, 5, 2] \<and>
         length (csv_files run) = 3 \<and>
         length (csv_files run ! 1) = 10)"
proof -
  have n: "length twelve_companies = 12" by (simp add: twelve_companies_def)
  have h1: "(0::int) < 5" by simp
  have h2: "case Some (12::int) of None \<Rightarrow> True | Some l \<Rightarrow> 0 \<le> l" by simp
  from pipeline_batches_and_checkpoints
    [of 5 "Some 12" world_silent scraper0 twelve_companies, OF h1 h2]
  obtain run where
    r: "run_research_pipeline world_silent scraper0 twelve_companies (Some 12) 5 = Inr run"
    and c: "concat (batches run) =
       (case Some (12::int) of
          None \<Rightarrow> twelve_companies
        | Some l \<Rightarrow> if l = 0 then twelve_companies else take (nat l) twelve_companies)"
    and i: "length (concat (batches run)) = 12 \<and> (5::int) = 5 \<longrightarrow>
       map length (batches run) = [5, 5, 2] \<and> length (csv_files run) = 3 \<and>
       length (csv_files run ! 1) = 10"
    by (elim exE conjE)
  from c n have c': "concat (batches run) = twelve_companies" by simp
  from n c' have "length (concat (batches run)) = 12 \<and> (5::int) = 5" by simp
  with i have "map length (batches run) = [5, 5, 2] \<and> length (csv_files run) = 3 \<and>
       length (csv_files run ! 1) = 10"
    by (rule mp)
  with r c' have "run_research_pipeline world_silent scraper0 twelve_companies (Some 12) 5 = Inr run \<and>
         concat (batches run) = twelve_companies \<and>
         map length (batches run) = [5, 5, 2] \<and>
         length (csv_files run) = 3 \<and>
         length (csv_files run ! 1) = 10"
    by (intro conjI) (elim conjE, assumption)+
  then show ?thesis using h1 by (intro conjI exI [of _ run]) simp_all
qed

section \<open>The ledger over a run\<close>
















end
